theory Spec2Isabelle
  imports
    Complex_Main
    "HOL-Library.Word"
    "HOL-Library.Char_ord"
    "HOL-Library.List_Lexorder"
    "HOL-Library.Multiset"
begin

unbundle bit_operations_syntax

chapter \<open>Merlin: the epoch controller of swarmpool\<close>

text \<open>
  A shallow embedding of the Python package \<^verbatim>\<open>merlin\<close> (\<^verbatim>\<open>crypto.py\<close>, \<^verbatim>\<open>config.py\<close>,
  \<^verbatim>\<open>schemas.py\<close>, \<^verbatim>\<open>watcher.py\<close>, \<^verbatim>\<open>epoch.py\<close>, \<^verbatim>\<open>publisher.py\<close>).

  Conventions.
  \<^item> A Python \<^verbatim>\<open>str\<close> is a \<open>string\<close>; every \<open>char\<close> stands for one code point below 256.
    Python compares strings lexicographically by code point, which is the order of
    \<open>HOL-Library.List_Lexorder\<close> over \<open>HOL-Library.Char_ord\<close>.
  \<^item> A Python \<^verbatim>\<open>bytes\<close> value is a list of 8-bit words.
  \<^item> A raised exception is the \<open>Inl\<close> branch of a sum.
  \<^item> Functions of third-party libraries (keccak of \<^verbatim>\<open>eth_utils\<close>, the account of
    \<^verbatim>\<open>eth_account\<close>, the HTTP calls to the object store) are parameters of the model.
\<close>

section \<open>Bytes, hexadecimal text and errors\<close>

type_synonym byte = "8 word"

datatype error =
    ValueError
  | TypeError
  | AttributeError
  | IndexError
  | OverflowError
  | PublishError

text \<open>\<^verbatim>\<open>str.startswith\<close> and \<^verbatim>\<open>str.endswith\<close>.\<close>

definition startswith :: "string \<Rightarrow> string \<Rightarrow> bool" where
  "startswith s p = (take (length p) s = p)"

definition endswith :: "string \<Rightarrow> string \<Rightarrow> bool" where
  "endswith s p = (length p \<le> length s \<and> drop (length s - length p) s = p)"

text \<open>\<^verbatim>\<open>str.encode("utf-8")\<close> on code points below 256.\<close>

definition utf8_char :: "char \<Rightarrow> byte list" where
  "utf8_char c =
     (let n = (of_char c :: nat)
      in if n < 128 then [of_nat n]
         else [of_nat (192 + n div 64), of_nat (128 + n mod 64)])"

definition utf8_encode :: "string \<Rightarrow> byte list" where
  "utf8_encode s = concat (map utf8_char s)"

text \<open>The value of a hexadecimal digit, as \<^verbatim>\<open>bytes.fromhex\<close> reads it.\<close>

definition hex_val :: "char \<Rightarrow> nat option" where
  "hex_val c =
     (let n = (of_char c :: nat)
      in if 48 \<le> n \<and> n \<le> 57 then Some (n - 48)
         else if 97 \<le> n \<and> n \<le> 102 then Some (n - 87)
         else if 65 \<le> n \<and> n \<le> 70 then Some (n - 55)
         else None)"

text \<open>ASCII whitespace: space, tab, line feed, vertical tab, form feed, carriage return.\<close>

definition is_space :: "char \<Rightarrow> bool" where
  "is_space c = (let n = (of_char c :: nat) in n = 32 \<or> (9 \<le> n \<and> n \<le> 13))"

text \<open>
  \<^verbatim>\<open>bytes.fromhex\<close>: whitespace is skipped before a byte, a byte is two hexadecimal
  digits, anything else raises \<^verbatim>\<open>ValueError\<close> (here \<open>None\<close>).
\<close>

fun fromhex :: "string \<Rightarrow> byte list option" where
  "fromhex [] = Some []"
| "fromhex [c] = (if is_space c then Some [] else None)"
| "fromhex (c # d # cs) =
     (if is_space c then fromhex (d # cs)
      else case (hex_val c, hex_val d) of
             (Some h, Some l) \<Rightarrow> map_option ((#) (of_nat (16 * h + l))) (fromhex cs)
           | _ \<Rightarrow> None)"

definition hex_digit :: "nat \<Rightarrow> char" where
  "hex_digit n = (if n < 10 then char_of (48 + n) else char_of (87 + n))"

text \<open>\<^verbatim>\<open>bytes.hex()\<close>: two lower-case digits for each byte.\<close>

definition hex_of_byte :: "byte \<Rightarrow> string" where
  "hex_of_byte b = [hex_digit (unat b div 16), hex_digit (unat b mod 16)]"

definition hex_of_bytes :: "byte list \<Rightarrow> string" where
  "hex_of_bytes bs = concat (map hex_of_byte bs)"

section \<open>Python values\<close>

subsection \<open>Numbers and their text\<close>

text \<open>\<^verbatim>\<open>str(n)\<close> for a natural number and for an integer.\<close>

fun nat_digits :: "nat \<Rightarrow> string" where
  "nat_digits n =
     (if n < 10 then [char_of (48 + n)]
      else nat_digits (n div 10) @ [char_of (48 + n mod 10)])"

declare nat_digits.simps [simp del]

definition str_of_int :: "int \<Rightarrow> string" where
  "str_of_int i = (if i < 0 then ''-'' @ nat_digits (nat (- i)) else nat_digits (nat i))"

text \<open>\<^verbatim>\<open>f"{n:04d}"\<close>: decimal digits, padded with zeros on the left to four at least.\<close>

definition format_04d :: "nat \<Rightarrow> string" where
  "format_04d n = (let ds = nat_digits n in replicate (4 - length ds) CHR ''0'' @ ds)"

text \<open>
  A Python \<^verbatim>\<open>float\<close> is a binary64 number. Its values are modelled by what they
  denote: a rational number, minus zero, the two infinities, or a NaN. The arithmetic of
  binary64 (rounding to 53 bits, overflow) is \<^emph>\<open>not\<close> interpreted: addition,
  multiplication, the conversions \<^verbatim>\<open>float(str)\<close> and \<^verbatim>\<open>float(int)\<close> and
  \<^verbatim>\<open>repr\<close> are the fields of a record that every function computing with floats
  takes as a parameter.
\<close>

datatype pyfloat = Fin rat | NegZero | PosInf | NegInf | NaN

record float_ops =
  fadd :: "pyfloat \<Rightarrow> pyfloat \<Rightarrow> pyfloat"
  fmul :: "pyfloat \<Rightarrow> pyfloat \<Rightarrow> pyfloat"
  float_of_str :: "string \<Rightarrow> pyfloat option"
  float_of_int :: "int \<Rightarrow> pyfloat option"
  float_repr :: "pyfloat \<Rightarrow> string"

text \<open>
  \<open>fadd\<close> is \<^verbatim>\<open>x + y\<close> and \<open>fmul\<close> is \<^verbatim>\<open>x * y\<close> on floats; \<open>float_of_str\<close> is
  \<^verbatim>\<open>float(s)\<close> for a string (\<open>None\<close> where it raises \<^verbatim>\<open>ValueError\<close>); \<open>float_of_int\<close> is
  \<^verbatim>\<open>float(i)\<close> for an integer (\<open>None\<close> where it raises \<^verbatim>\<open>OverflowError\<close>);
  \<open>float_repr\<close> is \<^verbatim>\<open>float.__repr__\<close>.
\<close>

text \<open>The comparisons \<^verbatim>\<open>x < 0\<close> and \<^verbatim>\<open>x > 1\<close>; every comparison with a NaN is false.\<close>

fun float_lt_0 :: "pyfloat \<Rightarrow> bool" where
  "float_lt_0 (Fin q) = (q < 0)"
| "float_lt_0 NegInf = True"
| "float_lt_0 _ = False"

fun float_gt_1 :: "pyfloat \<Rightarrow> bool" where
  "float_gt_1 (Fin q) = (q > 1)"
| "float_gt_1 PosInf = True"
| "float_gt_1 _ = False"

text \<open>Rounding a non-negative rational to the nearest integer, ties to the even one.\<close>

definition round_half_even :: "rat \<Rightarrow> nat" where
  "round_half_even r =
     (let f = \<lfloor>r\<rfloor>; d = r - of_int f
      in nat (if d < 1 / 2 then f else if 1 / 2 < d then f + 1
              else if even f then f else f + 1))"

text \<open>
  \<^verbatim>\<open>f"{x:.2f}"\<close>: the exact value, correctly rounded to two decimals; the sign is
  printed also when the rounded value is zero.
\<close>

definition two_decimals :: "nat \<Rightarrow> string" where
  "two_decimals n =
     nat_digits (n div 100) @ ''.'' @ [char_of (48 + n mod 100 div 10), char_of (48 + n mod 10)]"

fun format_2f :: "pyfloat \<Rightarrow> string" where
  "format_2f (Fin q) =
     (if q < 0 then ''-'' else []) @ two_decimals (round_half_even (\<bar>q\<bar> * 100))"
| "format_2f NegZero = ''-0.00''"
| "format_2f PosInf = ''inf''"
| "format_2f NegInf = ''-inf''"
| "format_2f NaN = ''nan''"

subsection \<open>JSON documents\<close>

text \<open>
  The values \<^verbatim>\<open>json.loads\<close> returns and the literals of the code build: \<^verbatim>\<open>None\<close>,
  \<^verbatim>\<open>bool\<close>, \<^verbatim>\<open>int\<close>, \<^verbatim>\<open>float\<close>, \<^verbatim>\<open>str\<close>, \<^verbatim>\<open>list\<close> and \<^verbatim>\<open>dict\<close> with
  string keys. A \<^verbatim>\<open>dict\<close> is an association list in insertion order; its keys are
  distinct in Python.
\<close>

datatype json =
    JNull
  | JBool bool
  | JInt int
  | JFloat pyfloat
  | JStr string
  | JList "json list"
  | JObj "(string \<times> json) list"

type_synonym pydict = "(string \<times> json) list"

text \<open>\<^verbatim>\<open>d.get(k)\<close> (\<open>None\<close> is Python's \<^verbatim>\<open>None\<close> for a missing key), \<^verbatim>\<open>k in d\<close>.\<close>

definition dict_get :: "pydict \<Rightarrow> string \<Rightarrow> json option" where
  "dict_get d k = map_of d k"

definition dict_has :: "pydict \<Rightarrow> string \<Rightarrow> bool" where
  "dict_has d k = (map_of d k \<noteq> None)"

text \<open>\<^verbatim>\<open>d[k] = v\<close>: an existing key keeps its place, a new key goes last.\<close>

fun dict_set :: "'k \<Rightarrow> 'v \<Rightarrow> ('k \<times> 'v) list \<Rightarrow> ('k \<times> 'v) list" where
  "dict_set k v [] = [(k, v)]"
| "dict_set k v ((k', v') # d) = (if k' = k then (k, v) # d else (k', v') # dict_set k v d)"

text \<open>\<^verbatim>\<open>{k: v for k, v in d.items() if k != key}\<close>, and \<^verbatim>\<open>del d[key]\<close> for a key of \<open>d\<close>.\<close>

definition dict_without :: "string \<Rightarrow> pydict \<Rightarrow> pydict" where
  "dict_without key d = filter (\<lambda>kv. fst kv \<noteq> key) d"

text \<open>\<^verbatim>\<open>{**d, k1: v1, ..., kn: vn}\<close>\<close>

definition dict_overlay :: "('k \<times> 'v) list \<Rightarrow> ('k \<times> 'v) list \<Rightarrow> ('k \<times> 'v) list" where
  "dict_overlay d kvs = fold (\<lambda>kv. dict_set (fst kv) (snd kv)) kvs d"

text \<open>
  Truth of a value (\<^verbatim>\<open>if x\<close>, \<^verbatim>\<open>not x\<close>): \<^verbatim>\<open>None\<close>, \<^verbatim>\<open>False\<close>, zero, and the empty
  string, list and dict are false.
\<close>

fun truthy :: "json \<Rightarrow> bool" where
  "truthy JNull = False"
| "truthy (JBool b) = b"
| "truthy (JInt i) = (i \<noteq> 0)"
| "truthy (JFloat f) = (f \<noteq> Fin 0 \<and> f \<noteq> NegZero)"
| "truthy (JStr s) = (s \<noteq> [])"
| "truthy (JList xs) = (xs \<noteq> [])"
| "truthy (JObj d) = (d \<noteq> [])"

text \<open>The truth of \<^verbatim>\<open>d.get(k)\<close>.\<close>

definition get_truthy :: "pydict \<Rightarrow> string \<Rightarrow> bool" where
  "get_truthy d k = (case dict_get d k of None \<Rightarrow> False | Some v \<Rightarrow> truthy v)"

text \<open>\<^verbatim>\<open>isinstance(x, (int, float))\<close>; \<^verbatim>\<open>bool\<close> is a subclass of \<^verbatim>\<open>int\<close>.\<close>

fun is_number :: "json option \<Rightarrow> bool" where
  "is_number (Some (JInt i)) = True"
| "is_number (Some (JFloat f)) = True"
| "is_number (Some (JBool b)) = True"
| "is_number _ = False"

text \<open>Values that cannot be hashed (as a member of a set or a key of a dict).\<close>

fun unhashable :: "json \<Rightarrow> bool" where
  "unhashable (JList xs) = True"
| "unhashable (JObj d) = True"
| "unhashable _ = False"

section \<open>Canonical JSON (\<^verbatim>\<open>crypto.py\<close>, \<^verbatim>\<open>publisher.py\<close>)\<close>

text \<open>
  A string inside \<^verbatim>\<open>json.dumps\<close> output (\<^verbatim>\<open>ensure_ascii\<close> is on): the printable ASCII
  characters stand for themselves, but for the quote and the backslash; the others are
  escaped.
\<close>

definition json_escape_char :: "char \<Rightarrow> string" where
  "json_escape_char c =
     (let n = (of_char c :: nat)
      in if n = 34 then [CHR 0x5C, CHR 0x22]
         else if n = 92 then [CHR 0x5C, CHR 0x5C]
         else if n = 10 then [CHR 0x5C, CHR ''n'']
         else if n = 13 then [CHR 0x5C, CHR ''r'']
         else if n = 9 then [CHR 0x5C, CHR ''t'']
         else if n = 8 then [CHR 0x5C, CHR ''b'']
         else if n = 12 then [CHR 0x5C, CHR ''f'']
         else if 32 \<le> n \<and> n \<le> 126 then [c]
         else [CHR 0x5C, CHR ''u'', CHR ''0'', CHR ''0'', hex_digit (n div 16), hex_digit (n mod 16)])"

definition json_string :: "string \<Rightarrow> string" where
  "json_string s = [CHR 0x22] @ concat (map json_escape_char s) @ [CHR 0x22]"

definition json_float :: "float_ops \<Rightarrow> pyfloat \<Rightarrow> string" where
  "json_float ops f =
     (case f of
        NaN \<Rightarrow> ''NaN''
      | PosInf \<Rightarrow> ''Infinity''
      | NegInf \<Rightarrow> ''-Infinity''
      | _ \<Rightarrow> float_repr ops f)"

text \<open>\<^verbatim>\<open>",".join(parts)\<close>\<close>

fun join_comma :: "string list \<Rightarrow> string" where
  "join_comma [] = []"
| "join_comma [p] = p"
| "join_comma (p # q # ps) = p @ '','' @ join_comma (q # ps)"

text \<open>
  \<^verbatim>\<open>json.dumps(data, separators=(",", ":"), sort_keys=True)\<close>. With \<^verbatim>\<open>sort_keys\<close> the
  encoder sorts the items of every dict (\<^verbatim>\<open>sorted(dct.items())\<close>); the keys of a dict
  are distinct, so this is the stable sort by key.
\<close>

fun json_dumps :: "float_ops \<Rightarrow> json \<Rightarrow> string" where
  "json_dumps ops JNull = ''null''"
| "json_dumps ops (JBool b) = (if b then ''true'' else ''false'')"
| "json_dumps ops (JInt i) = str_of_int i"
| "json_dumps ops (JFloat f) = json_float ops f"
| "json_dumps ops (JStr s) = json_string s"
| "json_dumps ops (JList xs) = ''['' @ join_comma (map (json_dumps ops) xs) @ '']''"
| "json_dumps ops (JObj d) =
     ''{'' @ join_comma (map (\<lambda>kv. json_string (fst kv) @ '':'' @ json_dumps ops (snd kv))
                            (sort_key fst d)) @ ''}''"

text \<open>\<^verbatim>\<open>sort_keys_recursive\<close>\<close>

fun sort_keys_recursive :: "json \<Rightarrow> json" where
  "sort_keys_recursive (JObj d) =
     JObj (map (\<lambda>kv. (fst kv, sort_keys_recursive (snd kv))) (sort_key fst d))"
| "sort_keys_recursive (JList xs) = JList (map sort_keys_recursive xs)"
| "sort_keys_recursive v = v"

text \<open>\<^verbatim>\<open>canonical_json\<close>\<close>

definition canonical_json :: "float_ops \<Rightarrow> json \<Rightarrow> string" where
  "canonical_json ops data = json_dumps ops (sort_keys_recursive data)"

section \<open>The Merkle root (\<^verbatim>\<open>crypto.py\<close>)\<close>

text \<open>
  \<^verbatim>\<open>eth_utils.keccak\<close> is a parameter: a function from bytes to a digest of 256 bits.
  \<open>digest_bytes\<close> gives the 32 bytes of a digest, most significant first.
\<close>

type_synonym digest = "256 word"

definition digest_bytes :: "digest \<Rightarrow> byte list" where
  "digest_bytes w = map (\<lambda>i. ucast (drop_bit (8 * (31 - i)) w)) [0..<32]"

text \<open>
  The leaf of one item:
  \<^verbatim>\<open>
  if item.startswith("0x"):
      hashes.append(bytes.fromhex(item[2:]))
  else:
      hashes.append(keccak(item.encode("utf-8")))
  \<close>
\<close>

definition leaf :: "(byte list \<Rightarrow> digest) \<Rightarrow> string \<Rightarrow> error + byte list" where
  "leaf keccak item =
     (if startswith item ''0x''
      then (case fromhex (drop 2 item) of None \<Rightarrow> Inl ValueError | Some bs \<Rightarrow> Inr bs)
      else Inr (digest_bytes (keccak (utf8_encode item))))"

text \<open>The loop over the sorted items stops at the first item that raises.\<close>

fun leaves :: "(byte list \<Rightarrow> digest) \<Rightarrow> string list \<Rightarrow> error + byte list list" where
  "leaves keccak [] = Inr []"
| "leaves keccak (item # items) =
     (case leaf keccak item of
        Inl e \<Rightarrow> Inl e
      | Inr h \<Rightarrow> (case leaves keccak items of Inl e \<Rightarrow> Inl e | Inr hs \<Rightarrow> Inr (h # hs)))"

text \<open>
  One level of the tree:
  \<^verbatim>\<open>
  for i in range(0, len(hashes), 2):
      combined = hashes[i] + hashes[i + 1]
      new_level.append(keccak(combined))
  \<close>
  \<^verbatim>\<open>hashes[i + 1]\<close> raises \<^verbatim>\<open>IndexError\<close> on a level of odd length.
\<close>

fun hash_pairs :: "(byte list \<Rightarrow> digest) \<Rightarrow> byte list list \<Rightarrow> error + byte list list" where
  "hash_pairs keccak [] = Inr []"
| "hash_pairs keccak [a] = Inl IndexError"
| "hash_pairs keccak (a # b # rest) =
     (case hash_pairs keccak rest of
        Inl e \<Rightarrow> Inl e
      | Inr new_level \<Rightarrow> Inr (digest_bytes (keccak (a @ b)) # new_level))"

lemma hash_pairs_length:
  "hash_pairs keccak hs = Inr new_level \<Longrightarrow> 2 * length new_level = length hs"
  by (induction keccak hs arbitrary: new_level rule: hash_pairs.induct)
     (auto split: sum.splits)

text \<open>\<^verbatim>\<open>if len(hashes) % 2 == 1: hashes.append(hashes[-1])\<close>\<close>

definition duplicate_last :: "byte list list \<Rightarrow> byte list list" where
  "duplicate_last hashes = (if odd (length hashes) then hashes @ [last hashes] else hashes)"

text \<open>\<^verbatim>\<open>while len(hashes) > 1: ...\<close>\<close>

function build_tree :: "(byte list \<Rightarrow> digest) \<Rightarrow> byte list list \<Rightarrow> error + byte list list" where
  "build_tree keccak hashes =
     (if length hashes > 1
      then (case hash_pairs keccak (duplicate_last hashes) of
              Inl e \<Rightarrow> Inl e
            | Inr new_level \<Rightarrow> build_tree keccak new_level)
      else Inr hashes)"
  by pat_completeness auto
termination
proof (relation "measure (\<lambda>(keccak, hashes). length hashes)")
  show "wf (measure (\<lambda>(keccak, hashes). length hashes))" by simp
next
  fix keccak :: "byte list \<Rightarrow> digest" and hashes new_level :: "byte list list"
  assume "1 < length hashes" and "hash_pairs keccak (duplicate_last hashes) = Inr new_level"
  then have "2 * length new_level = length (duplicate_last hashes)" "1 < length hashes"
    by (simp_all add: hash_pairs_length)
  then show "((keccak, new_level), (keccak, hashes)) \<in> measure (\<lambda>(keccak, hashes). length hashes)"
    by (auto simp: duplicate_last_def split: if_splits)
qed

declare build_tree.simps [simp del]

definition zero_root :: string where
  "zero_root = ''0x'' @ replicate 64 CHR ''0''"

text \<open>
  \<^verbatim>\<open>compute_merkle_root\<close>. \<^verbatim>\<open>hashes[0]\<close> raises \<^verbatim>\<open>IndexError\<close> on an empty list.
\<close>

definition compute_merkle_root :: "(byte list \<Rightarrow> digest) \<Rightarrow> string list \<Rightarrow> error + string" where
  "compute_merkle_root keccak items =
     (if items = [] then Inr zero_root
      else case leaves keccak (sort items) of
             Inl e \<Rightarrow> Inl e
           | Inr hashes \<Rightarrow>
               (case build_tree keccak hashes of
                  Inl e \<Rightarrow> Inl e
                | Inr [] \<Rightarrow> Inl IndexError
                | Inr (h # _) \<Rightarrow> Inr (''0x'' @ hex_of_bytes h)))"

section \<open>Signing (\<^verbatim>\<open>crypto.py\<close>)\<close>

text \<open>
  The account of \<^verbatim>\<open>eth_account\<close> is a parameter. \<open>sign_message\<close> maps the 32 bytes of
  a message hash to the bytes of the signature that
  \<^verbatim>\<open>account.sign_message(encode_defunct(primitive=message_hash))\<close> returns;
  \<open>hex_prefixed\<close> tells whether \<^verbatim>\<open>signature.hex()\<close> of the installed \<^verbatim>\<open>hexbytes\<close>
  writes the \<^verbatim>\<open>0x\<close> prefix; \<open>address\<close> is \<^verbatim>\<open>account.address\<close>.
\<close>

record signer =
  sign_message :: "byte list \<Rightarrow> byte list"
  hex_prefixed :: bool
  address :: string

text \<open>The bytes that are hashed and signed for a document: its canonical form without \<^verbatim>\<open>sig\<close>.\<close>

definition signed_text :: "float_ops \<Rightarrow> pydict \<Rightarrow> string" where
  "signed_text ops data = canonical_json ops (JObj (dict_without ''sig'' data))"

definition message_hash :: "float_ops \<Rightarrow> (byte list \<Rightarrow> digest) \<Rightarrow> pydict \<Rightarrow> byte list" where
  "message_hash ops keccak data = digest_bytes (keccak (utf8_encode (signed_text ops data)))"

text \<open>\<^verbatim>\<open>MerlinSigner.sign_snapshot\<close>\<close>

definition sign_snapshot ::
  "float_ops \<Rightarrow> (byte list \<Rightarrow> digest) \<Rightarrow> signer \<Rightarrow> pydict \<Rightarrow> string" where
  "sign_snapshot ops keccak sg data =
     (if hex_prefixed sg then ''0x'' else []) @
     hex_of_bytes (sign_message sg (message_hash ops keccak data))"

text \<open>
  \<^verbatim>\<open>MerlinSigner.sign_and_add\<close>:
  \<^verbatim>\<open>{**data, "sig": f"0x{sig}" if not sig.startswith("0x") else sig}\<close>
\<close>

definition sign_and_add ::
  "float_ops \<Rightarrow> (byte list \<Rightarrow> digest) \<Rightarrow> signer \<Rightarrow> pydict \<Rightarrow> pydict" where
  "sign_and_add ops keccak sg data =
     (let sig = sign_snapshot ops keccak sg data
      in dict_set ''sig'' (JStr (if \<not> startswith sig ''0x'' then ''0x'' @ sig else sig)) data)"

text \<open>
  \<^verbatim>\<open>verify_signature\<close>. \<^verbatim>\<open>Account.recover_message\<close> and \<^verbatim>\<open>to_checksum_address\<close>
  are parameters; \<open>None\<close> is a raised exception, which the function turns into \<^verbatim>\<open>False\<close>,
  as it does for a signature that \<^verbatim>\<open>bytes.fromhex\<close> refuses.
\<close>

record verifier =
  recover_message :: "byte list \<Rightarrow> byte list \<Rightarrow> string option"
  to_checksum_address :: "string \<Rightarrow> string option"

definition verify_signature ::
  "float_ops \<Rightarrow> (byte list \<Rightarrow> digest) \<Rightarrow> verifier \<Rightarrow> pydict \<Rightarrow> string \<Rightarrow> string \<Rightarrow> bool" where
  "verify_signature ops keccak vf data signature expected_address =
     (let h = message_hash ops keccak data;
          signature' = (if startswith signature ''0x'' then drop 2 signature else signature)
      in case fromhex signature' of
           None \<Rightarrow> False
         | Some sig_bytes \<Rightarrow>
             (case recover_message vf h sig_bytes of
                None \<Rightarrow> False
              | Some recovered \<Rightarrow>
                  (case (to_checksum_address vf recovered, to_checksum_address vf expected_address) of
                     (Some a, Some b) \<Rightarrow> a = b
                   | _ \<Rightarrow> False)))"

section \<open>Publishing (\<^verbatim>\<open>publisher.py\<close>)\<close>

text \<open>
  The object store is a parameter: \<open>ipfs_add\<close> maps the bytes posted to \<^verbatim>\<open>/api/v0/add\<close>
  to the \<^verbatim>\<open>Hash\<close> of the answer, or to \<open>None\<close> when the status is not 200, in which case
  \<^verbatim>\<open>publish_snapshot\<close> raises. The text \<^verbatim>\<open>json.dumps\<close> returns is ASCII, so the bytes
  posted are its characters.
\<close>

record publisher =
  ipfs_add :: "string \<Rightarrow> string option"

text \<open>The text \<^verbatim>\<open>publish_snapshot\<close> serialises and adds to the store.\<close>

definition published_text :: "float_ops \<Rightarrow> pydict \<Rightarrow> string" where
  "published_text ops data = json_dumps ops (JObj data)"

text \<open>
  \<^verbatim>\<open>publish_snapshot\<close>: the CID, or the exception of a failed add. The requests that
  follow the add (\<^verbatim>\<open>files/rm\<close>, \<^verbatim>\<open>files/cp\<close>, \<^verbatim>\<open>pin/add\<close>) do not change what is
  returned: a failure of theirs is logged or ignored.
\<close>

definition publish_snapshot ::
  "float_ops \<Rightarrow> publisher \<Rightarrow> pydict \<Rightarrow> string \<Rightarrow> string \<Rightarrow> error + string" where
  "publish_snapshot ops pub data directory snapshot_id =
     (case ipfs_add pub (published_text ops data) of
        None \<Rightarrow> Inl PublishError
      | Some cid \<Rightarrow> Inr cid)"

text \<open>
  A dict display \<^verbatim>\<open>{k1: v1, ..., kn: vn}\<close>: a key written twice keeps its first place
  and its last value.
\<close>

definition dict_display :: "('k \<times> 'v) list \<Rightarrow> ('k \<times> 'v) list" where
  "dict_display kvs = dict_overlay [] kvs"

text \<open>
  The parameters of the \<^verbatim>\<open>files/cp\<close> request of \<^verbatim>\<open>publish_snapshot\<close>:
  \<^verbatim>\<open>params={"arg": f"/ipfs/{cid}", "arg": canonical_path}\<close> with
  \<^verbatim>\<open>canonical_path = f"{directory}/{snapshot_id}.json"\<close>.
\<close>

definition canonical_path :: "string \<Rightarrow> string \<Rightarrow> string" where
  "canonical_path directory snapshot_id = directory @ ''/'' @ snapshot_id @ ''.json''"

definition files_cp_params :: "string \<Rightarrow> string \<Rightarrow> string \<Rightarrow> (string \<times> string) list" where
  "files_cp_params cid directory snapshot_id =
     dict_display [(''arg'', ''/ipfs/'' @ cid), (''arg'', canonical_path directory snapshot_id)]"

text \<open>
  \<^verbatim>\<open>publish_epoch\<close>. The snapshot id is \<^verbatim>\<open>epoch_data.get("epoch_id", "unknown")\<close>, a
  string in every document the epoch manager builds; \<open>py_str\<close>, the text Python formats
  another value to, is a parameter.
\<close>

definition snapshot_id_of :: "(json \<Rightarrow> string) \<Rightarrow> pydict \<Rightarrow> string" where
  "snapshot_id_of py_str epoch_data =
     (case dict_get epoch_data ''epoch_id'' of
        None \<Rightarrow> ''unknown''
      | Some (JStr s) \<Rightarrow> s
      | Some v \<Rightarrow> py_str v)"

definition publish_epoch ::
  "float_ops \<Rightarrow> (json \<Rightarrow> string) \<Rightarrow> publisher \<Rightarrow> pydict \<Rightarrow> error + string" where
  "publish_epoch ops py_str pub epoch_data =
     publish_snapshot ops pub epoch_data ''/swarmledger/epochs'' (snapshot_id_of py_str epoch_data)"

section \<open>Configuration (\<^verbatim>\<open>config.py\<close>)\<close>

record merlin_config =
  identity :: string
  pool :: string
  epoch_duration_seconds :: int
  provider_share :: pyfloat
  network_ops_share :: pyfloat

definition NATO_ALPHABET :: "string list" where
  "NATO_ALPHABET =
     [''Alpha'', ''Bravo'', ''Charlie'', ''Delta'', ''Echo'', ''Foxtrot'',
      ''Golf'', ''Hotel'', ''India'', ''Juliet'', ''Kilo'', ''Lima'',
      ''Mike'', ''November'', ''Oscar'', ''Papa'', ''Quebec'', ''Romeo'',
      ''Sierra'', ''Tango'', ''Uniform'', ''Victor'', ''Whiskey'', ''X-ray'',
      ''Yankee'', ''Zulu'']"

text \<open>
  \<^verbatim>\<open>get_epoch_name\<close>: the index \<^verbatim>\<open>epoch_number % len(NATO_ALPHABET)\<close> is below the
  length of the list, so the read never raises.
\<close>

definition get_epoch_name :: "nat \<Rightarrow> string" where
  "get_epoch_name epoch_number = NATO_ALPHABET ! (epoch_number mod length NATO_ALPHABET)"

section \<open>The epoch manager (\<^verbatim>\<open>epoch.py\<close>)\<close>

text \<open>
  An item of the accumulator \<^verbatim>\<open>current_proofs\<close>:
  \<^verbatim>\<open>{"proof": proof, "job": job, "processed_at": ...}\<close>, with \<^verbatim>\<open>job\<close> the
  \<^verbatim>\<open>Optional[Dict[str, Any]]\<close> that \<^verbatim>\<open>fetch_job\<close> returns. (\<open>proof\<close> is a keyword
  of Isabelle: the fields are \<open>item_proof\<close> and \<open>item_job\<close>.)
\<close>

record item =
  item_proof :: pydict
  item_job :: "pydict option"
  processed_at :: int

text \<open>
  The fields of \<^verbatim>\<open>EpochManager\<close>. A \<^verbatim>\<open>datetime\<close> is the number of microseconds
  since 1970; the counter \<open>epoch_number\<close> starts at 0 and is only ever incremented, so
  it is a natural number. The set of processed ids holds strings: an id is added only
  after \<^verbatim>\<open>validate_proof\<close> has found it to be a string.
\<close>

record epoch_manager =
  current_epoch :: "pydict option"
  current_epoch_id :: "string option"
  epoch_started_at :: "int option"
  current_proofs :: "item list"
  processed_proof_ids :: "string set"
  epoch_number :: nat

text \<open>The state \<^verbatim>\<open>__init__\<close> sets up.\<close>

definition init_manager :: epoch_manager where
  "init_manager =
     \<lparr>current_epoch = None, current_epoch_id = None, epoch_started_at = None,
      current_proofs = [], processed_proof_ids = {}, epoch_number = 0\<rparr>"

text \<open>\<^verbatim>\<open>int(now.timestamp())\<close> for a time after 1970.\<close>

definition unix_seconds :: "int \<Rightarrow> int" where
  "unix_seconds now = now div 1000000"

text \<open>The libraries the manager calls, as one parameter.\<close>

record world =
  lib_ops :: float_ops
  lib_keccak :: "byte list \<Rightarrow> digest"
  lib_account :: signer
  lib_store :: publisher
  lib_str :: "json \<Rightarrow> string"

text \<open>The document \<^verbatim>\<open>open_new_epoch\<close> builds for the epoch number \<open>n\<close>, before it is signed.\<close>

definition new_epoch_document :: "merlin_config \<Rightarrow> nat \<Rightarrow> int \<Rightarrow> pydict" where
  "new_epoch_document cfg n now =
     (let timestamp = unix_seconds now
      in [(''type'', JStr ''epoch''),
          (''version'', JStr ''1.0.0''),
          (''epoch_id'', JStr (''epoch-'' @ format_04d n)),
          (''epoch_number'', JInt (int n)),
          (''name'', JStr (get_epoch_name n)),
          (''status'', JStr ''active''),
          (''started_at'', JInt timestamp),
          (''ended_at'', JNull),
          (''jobs_count'', JInt 0),
          (''proofs_count'', JInt 0),
          (''total_volume_usdc'', JStr ''0.00''),
          (''merkle_root'', JNull),
          (''settlements'', JNull),
          (''proofs'', JList []),
          (''controller'', JStr (identity cfg)),
          (''timestamp'', JInt timestamp)])"

text \<open>
  \<^verbatim>\<open>open_new_epoch\<close>. The counter is incremented first, so the state changes also when
  \<^verbatim>\<open>publish_epoch\<close> raises: the result is the new state with the exception or the
  returned \<^verbatim>\<open>epoch_id\<close>. The announcement on pubsub changes neither (it swallows its
  failures).
\<close>

definition open_new_epoch ::
  "world \<Rightarrow> merlin_config \<Rightarrow> int \<Rightarrow> epoch_manager \<Rightarrow> epoch_manager \<times> (error + string)" where
  "open_new_epoch w cfg now m =
     (let m1 = m\<lparr>epoch_number := epoch_number m + 1\<rparr>;
          epoch_id = ''epoch-'' @ format_04d (epoch_number m1);
          epoch = new_epoch_document cfg (epoch_number m1) now;
          signed_epoch = sign_and_add (lib_ops w) (lib_keccak w) (lib_account w) epoch
      in case publish_epoch (lib_ops w) (lib_str w) (lib_store w) signed_epoch of
           Inl e \<Rightarrow> (m1, Inl e)
         | Inr cid \<Rightarrow>
             (m1\<lparr>current_epoch := Some signed_epoch,
                 current_epoch_id := Some epoch_id,
                 epoch_started_at := Some now,
                 current_proofs := [],
                 processed_proof_ids := {}\<rparr>,
              Inr epoch_id))"

text \<open>\<^verbatim>\<open>should_seal\<close>: \<^verbatim>\<open>elapsed >= epoch_duration_seconds\<close>, the elapsed time in seconds.\<close>

definition should_seal :: "merlin_config \<Rightarrow> int \<Rightarrow> epoch_manager \<Rightarrow> bool" where
  "should_seal cfg now m =
     (case epoch_started_at m of
        None \<Rightarrow> False
      | Some started \<Rightarrow> epoch_duration_seconds cfg * 1000000 \<le> now - started)"

section \<open>The proof watcher (\<^verbatim>\<open>watcher.py\<close>)\<close>

record proof_watcher =
  seen_proofs :: "string set"
  total_seen :: nat

text \<open>
  One poll reads the listing of \<^verbatim>\<open>/swarmpool/proofs\<close>. The store's answers are the
  input: for each listed id in turn, what \<^verbatim>\<open>fetch_proof\<close> returns if it is called at
  that moment (\<open>None\<close> for a failed fetch; \<^verbatim>\<open>list_proofs\<close> and \<^verbatim>\<open>fetch_proof\<close> catch
  their own exceptions). \<open>poll_found\<close> is the loop: it returns, in order, each
  \<^verbatim>\<open>proof_id\<close> of the debug line \<^verbatim>\<open>New proof found\<close> with the proof appended to
  \<^verbatim>\<open>new_proofs\<close>, and the watcher after the loop.
  \<^verbatim>\<open>
  for proof_id in proof_ids:
      if proof_id in self.seen_proofs:
          continue
      proof = await self.publisher.fetch_proof(proof_id)
      if proof:
          new_proofs.append(proof)
          self.seen_proofs.add(proof_id)
          self.total_seen += 1
  \<close>
\<close>

definition fetch_ok :: "pydict option \<Rightarrow> bool" where
  "fetch_ok fetched = (case fetched of None \<Rightarrow> False | Some p \<Rightarrow> p \<noteq> [])"

text \<open>\<^verbatim>\<open>self.seen_proofs.add(proof_id); self.total_seen += 1\<close>\<close>

definition mark_seen :: "string \<Rightarrow> proof_watcher \<Rightarrow> proof_watcher" where
  "mark_seen proof_id w =
     w\<lparr>seen_proofs := insert proof_id (seen_proofs w), total_seen := total_seen w + 1\<rparr>"

fun poll_found ::
  "proof_watcher \<Rightarrow> (string \<times> pydict option) list \<Rightarrow> (string \<times> pydict) list \<times> proof_watcher" where
  "poll_found w [] = ([], w)"
| "poll_found w ((proof_id, fetched) # rest) =
     (if proof_id \<in> seen_proofs w then poll_found w rest
      else case fetched of
             None \<Rightarrow> poll_found w rest
           | Some p \<Rightarrow>
               if p \<noteq> []
               then (let (found, w') = poll_found (mark_seen proof_id w) rest
                     in ((proof_id, p) # found, w'))
               else poll_found w rest)"

text \<open>\<^verbatim>\<open>ProofWatcher.poll\<close>: the list \<^verbatim>\<open>new_proofs\<close> and the watcher after the call.\<close>

definition poll :: "proof_watcher \<Rightarrow> (string \<times> pydict option) list \<Rightarrow> pydict list \<times> proof_watcher" where
  "poll w listing = (let (found, w') = poll_found w listing in (map snd found, w'))"

text \<open>A run of polls, one after the other on the same watcher: what each poll found.\<close>

fun polls_found ::
  "proof_watcher \<Rightarrow> (string \<times> pydict option) list list
     \<Rightarrow> (string \<times> pydict) list list \<times> proof_watcher" where
  "polls_found w [] = ([], w)"
| "polls_found w (listing # listings) =
     (let (found, w') = poll_found w listing;
          (founds, w'') = polls_found w' listings
      in (found # founds, w''))"

text \<open>The ids delivered over a run, in order of delivery.\<close>

definition delivered_ids :: "proof_watcher \<Rightarrow> (string \<times> pydict option) list list \<Rightarrow> string list" where
  "delivered_ids w listings = map fst (concat (fst (polls_found w listings)))"

section \<open>Schema validation (\<^verbatim>\<open>schemas.py\<close>)\<close>

text \<open>
  \<^verbatim>\<open>validate_proof\<close> collects messages in the list \<^verbatim>\<open>errors\<close> and returns whether the
  list is empty. Each check below gives the messages it appends (their text is only
  logged), or the exception it raises.
\<close>

text \<open>\<^verbatim>\<open>if proof.get("type") != "proof"\<close>\<close>

definition check_type :: "pydict \<Rightarrow> string list" where
  "check_type p = (if dict_get p ''type'' \<noteq> Some (JStr ''proof'') then [''type must be proof''] else [])"

text \<open>
  \<^verbatim>\<open>
  if not proof.get(field): errors.append(f"missing required field: {field}")
  elif not isinstance(proof.get(field), str): errors.append(f"{field} must be a string")
  \<close>
\<close>

definition check_required_string :: "pydict \<Rightarrow> string \<Rightarrow> string list" where
  "check_required_string p field =
     (if \<not> get_truthy p field then [''missing required field: '' @ field]
      else case dict_get p field of
             Some (JStr s) \<Rightarrow> []
           | _ \<Rightarrow> [field @ '' must be a string''])"

definition required_strings :: "string list" where
  "required_strings = [''proof_id'', ''job_cid'', ''output_cid'', ''provider'', ''proof_hash'', ''sig'']"

text \<open>\<^verbatim>\<open>if not isinstance(proof.get("timestamp"), (int, float))\<close>\<close>

definition check_timestamp :: "pydict \<Rightarrow> string list" where
  "check_timestamp p =
     (if \<not> is_number (dict_get p ''timestamp'') then [''timestamp must be a number''] else [])"

text \<open>\<^verbatim>\<open>conf < 0 or conf > 1\<close> for a number.\<close>

fun out_of_unit_range :: "json \<Rightarrow> bool" where
  "out_of_unit_range (JInt i) = (i < 0 \<or> i > 1)"
| "out_of_unit_range (JFloat f) = (float_lt_0 f \<or> float_gt_1 f)"
| "out_of_unit_range _ = False"

definition check_metrics :: "pydict \<Rightarrow> string list" where
  "check_metrics p =
     (case dict_get p ''metrics'' of
        Some (JObj metrics) \<Rightarrow>
          (if \<not> is_number (dict_get metrics ''inference_seconds'')
           then [''metrics.inference_seconds must be a number''] else []) @
          (if \<not> is_number (dict_get metrics ''confidence'')
           then [''metrics.confidence must be a number'']
           else case dict_get metrics ''confidence'' of
                  Some conf \<Rightarrow>
                    (if out_of_unit_range conf
                     then [''metrics.confidence must be between 0 and 1''] else [])
                | None \<Rightarrow> [])
      | _ \<Rightarrow> [''metrics must be an object''])"

text \<open>
  \<^verbatim>\<open>re.compile(r'^(bafy|Qm)[a-zA-Z0-9]+').match(value)\<close>: the prefix \<^verbatim>\<open>bafy\<close> or
  \<^verbatim>\<open>Qm\<close>, then one ASCII letter or digit at least.
\<close>

definition is_alnum :: "char \<Rightarrow> bool" where
  "is_alnum c =
     (let n = (of_char c :: nat)
      in (48 \<le> n \<and> n \<le> 57) \<or> (65 \<le> n \<and> n \<le> 90) \<or> (97 \<le> n \<and> n \<le> 122))"

definition alnum_at :: "string \<Rightarrow> nat \<Rightarrow> bool" where
  "alnum_at s i = (i < length s \<and> is_alnum (s ! i))"

definition cid_pattern_match :: "string \<Rightarrow> bool" where
  "cid_pattern_match s =
     ((startswith s ''bafy'' \<and> alnum_at s 4) \<or> (startswith s ''Qm'' \<and> alnum_at s 2))"

text \<open>
  \<^verbatim>\<open>
  value = proof.get(field, "")
  if value and not cid_pattern.match(value): errors.append(...)
  \<close>
  \<^verbatim>\<open>match\<close> raises \<^verbatim>\<open>TypeError\<close> on a value that is not a string.
\<close>

definition check_cid :: "pydict \<Rightarrow> string \<Rightarrow> error + string list" where
  "check_cid p field =
     (case dict_get p field of
        None \<Rightarrow> Inr []
      | Some v \<Rightarrow>
          if \<not> truthy v then Inr []
          else case v of
                 JStr s \<Rightarrow>
                   Inr (if \<not> cid_pattern_match s
                        then [field @ '' does not look like a valid CID''] else [])
               | _ \<Rightarrow> Inl TypeError)"

text \<open>
  \<^verbatim>\<open>if proof.get(field) and not proof[field].startswith("0x")\<close>: a true value that is
  not a string has no \<^verbatim>\<open>startswith\<close>, and the read raises \<^verbatim>\<open>AttributeError\<close>.
\<close>

definition check_0x :: "pydict \<Rightarrow> string \<Rightarrow> error + string list" where
  "check_0x p field =
     (case dict_get p field of
        None \<Rightarrow> Inr []
      | Some v \<Rightarrow>
          if \<not> truthy v then Inr []
          else case v of
                 JStr s \<Rightarrow> Inr (if \<not> startswith s ''0x'' then [field @ '' must be 0x-prefixed''] else [])
               | _ \<Rightarrow> Inl AttributeError)"

text \<open>
  \<^verbatim>\<open>
  provider = proof.get("provider", "")
  if provider and not provider.endswith(".eth"): errors.append(...)
  \<close>
\<close>

definition check_provider :: "pydict \<Rightarrow> error + string list" where
  "check_provider p =
     (case dict_get p ''provider'' of
        None \<Rightarrow> Inr []
      | Some v \<Rightarrow>
          if \<not> truthy v then Inr []
          else case v of
                 JStr s \<Rightarrow>
                   Inr (if \<not> endswith s ''.eth''
                        then [''provider must be an ENS name (ending in .eth)''] else [])
               | _ \<Rightarrow> Inl AttributeError)"

text \<open>Checks in sequence: the first exception ends the call.\<close>

fun and_then :: "error + string list \<Rightarrow> error + string list \<Rightarrow> error + string list" where
  "and_then (Inl e) _ = Inl e"
| "and_then (Inr errors) (Inl e) = Inl e"
| "and_then (Inr errors) (Inr others) = Inr (errors @ others)"

definition proof_errors :: "pydict \<Rightarrow> error + string list" where
  "proof_errors p =
     and_then (Inr (check_type p @
                    concat (map (check_required_string p) required_strings) @
                    check_timestamp p @
                    check_metrics p))
    (and_then (check_cid p ''job_cid'')
    (and_then (check_cid p ''output_cid'')
    (and_then (check_0x p ''proof_hash'')
    (and_then (check_0x p ''sig'')
              (check_provider p)))))"

text \<open>\<^verbatim>\<open>validate_proof\<close>\<close>

definition validate_proof :: "pydict \<Rightarrow> error + bool" where
  "validate_proof p = (case proof_errors p of Inl e \<Rightarrow> Inl e | Inr errors \<Rightarrow> Inr (errors = []))"

section \<open>Accepting a proof (\<^verbatim>\<open>epoch.py\<close>)\<close>

text \<open>
  \<^verbatim>\<open>proof_id in self.processed_proof_ids\<close>: hashing a list or a dict raises
  \<^verbatim>\<open>TypeError\<close>; a value that is not a string is no member of a set of strings.
\<close>

definition already_processed :: "epoch_manager \<Rightarrow> json \<Rightarrow> error + bool" where
  "already_processed m proof_id =
     (if unhashable proof_id then Inl TypeError
      else case proof_id of
             JStr s \<Rightarrow> Inr (s \<in> processed_proof_ids m)
           | _ \<Rightarrow> Inr False)"

text \<open>
  \<^verbatim>\<open>process_proof\<close>. \<open>fetch_job\<close> is what the store answers to \<^verbatim>\<open>fetch_job(job_cid)\<close>
  (\<open>None\<close> for a job that cannot be fetched). The result is the returned boolean with the
  manager after the call, or the exception; nothing is assigned before an exception is
  raised.
\<close>

definition process_proof ::
  "(string \<Rightarrow> pydict option) \<Rightarrow> int \<Rightarrow> epoch_manager \<Rightarrow> pydict \<Rightarrow> error + bool \<times> epoch_manager" where
  "process_proof fetch_job now m p =
     (let proof_id = (case dict_get p ''proof_id'' of None \<Rightarrow> JStr ''unknown'' | Some v \<Rightarrow> v)
      in case already_processed m proof_id of
           Inl e \<Rightarrow> Inl e
         | Inr True \<Rightarrow> Inr (False, m)
         | Inr False \<Rightarrow>
             (case validate_proof p of
                Inl e \<Rightarrow> Inl e
              | Inr False \<Rightarrow> Inr (False, m)
              | Inr True \<Rightarrow>
                  if \<not> get_truthy p ''sig'' then Inr (False, m)
                  else
                    (let job = (case dict_get p ''job_cid'' of
                                  Some (JStr job_cid) \<Rightarrow>
                                    if job_cid \<noteq> [] then fetch_job job_cid else None
                                | _ \<Rightarrow> None);
                         it = \<lparr>item_proof = p, item_job = job, processed_at = unix_seconds now\<rparr>
                     in Inr (True,
                             m\<lparr>current_proofs := current_proofs m @ [it],
                               processed_proof_ids :=
                                 (case proof_id of
                                    JStr s \<Rightarrow> insert s (processed_proof_ids m)
                                  | _ \<Rightarrow> processed_proof_ids m)\<rparr>))))"

section \<open>Settlements (\<^verbatim>\<open>epoch.py\<close>)\<close>

text \<open>
  The literal \<^verbatim>\<open>0.10\<close> is the binary64 number nearest to one tenth, and \<^verbatim>\<open>0.0\<close> is
  zero.
\<close>

definition default_reward :: pyfloat where
  "default_reward = Fin (3602879701896397 / 36028797018963968)"

text \<open>
  The reward of one item:
  \<^verbatim>\<open>
  reward = 0.10
  if job and "payment" in job:
      try:
          reward = float(job["payment"].get("amount", "0.10"))
      except (ValueError, TypeError):
          reward = 0.10
  \<close>
  \<^verbatim>\<open>float\<close> raises \<^verbatim>\<open>ValueError\<close> on a string it cannot read and \<^verbatim>\<open>TypeError\<close> on
  \<^verbatim>\<open>None\<close>, a list or a dict: both are caught. A payment that is not a dict has no
  \<^verbatim>\<open>get\<close> (\<^verbatim>\<open>AttributeError\<close>), and an integer too large for a float raises
  \<^verbatim>\<open>OverflowError\<close>: neither is caught.
\<close>

definition reward_of :: "float_ops \<Rightarrow> pydict option \<Rightarrow> error + pyfloat" where
  "reward_of ops job =
     (case job of
        None \<Rightarrow> Inr default_reward
      | Some j \<Rightarrow>
          if j = [] \<or> \<not> dict_has j ''payment'' then Inr default_reward
          else case dict_get j ''payment'' of
                 Some (JObj payment) \<Rightarrow>
                   (case (case dict_get payment ''amount'' of None \<Rightarrow> JStr ''0.10'' | Some a \<Rightarrow> a) of
                      JStr s \<Rightarrow>
                        (case float_of_str ops s of
                           None \<Rightarrow> Inr default_reward
                         | Some f \<Rightarrow> Inr f)
                    | JInt i \<Rightarrow>
                        (case float_of_int ops i of
                           None \<Rightarrow> Inl OverflowError
                         | Some f \<Rightarrow> Inr f)
                    | JFloat f \<Rightarrow> Inr f
                    | JBool b \<Rightarrow> Inr (Fin (if b then 1 else 0))
                    | _ \<Rightarrow> Inr default_reward)
               | _ \<Rightarrow> Inl AttributeError)"

text \<open>
  The key of \<^verbatim>\<open>provider_earnings[provider]\<close>, with
  \<^verbatim>\<open>provider = proof.get("provider", "unknown")\<close>. The dict is declared
  \<^verbatim>\<open>Dict[str, float]\<close>: a provider that is a list or a dict raises \<^verbatim>\<open>TypeError\<close>
  (it cannot be hashed); any other provider that is not a string is outside the
  declared type and outside this model (\<open>OutOfModel\<close>), which says nothing about it.
\<close>

datatype failure = Raised error | OutOfModel

definition provider_key :: "pydict \<Rightarrow> failure + string" where
  "provider_key p =
     (case dict_get p ''provider'' of
        None \<Rightarrow> Inr ''unknown''
      | Some (JStr s) \<Rightarrow> Inr s
      | Some v \<Rightarrow> if unhashable v then Inl (Raised TypeError) else Inl OutOfModel)"

text \<open>
  The loop of \<^verbatim>\<open>_compute_settlements\<close> over the accumulator, on the pair of
  \<^verbatim>\<open>total_volume\<close> and \<^verbatim>\<open>provider_earnings\<close> (a \<^verbatim>\<open>defaultdict(float)\<close>: a missing key
  reads as \<^verbatim>\<open>0.0\<close>).
\<close>

fun settle ::
  "float_ops \<Rightarrow> merlin_config \<Rightarrow> item list \<Rightarrow> pyfloat \<times> (string \<times> pyfloat) list
     \<Rightarrow> failure + pyfloat \<times> (string \<times> pyfloat) list" where
  "settle ops cfg [] acc = Inr acc"
| "settle ops cfg (it # items) (total_volume, provider_earnings) =
     (case reward_of ops (item_job it) of
        Inl e \<Rightarrow> Inl (Raised e)
      | Inr reward \<Rightarrow>
          (case provider_key (item_proof it) of
             Inl f \<Rightarrow> Inl f
           | Inr provider \<Rightarrow>
               (let share = fmul ops reward (provider_share cfg);
                    earned = (case map_of provider_earnings provider of
                                None \<Rightarrow> Fin 0
                              | Some v \<Rightarrow> v)
                in settle ops cfg items
                     (fadd ops total_volume reward,
                      dict_set provider (fadd ops earned share) provider_earnings))))"

record settlements =
  total_volume :: pyfloat
  provider_pool :: pyfloat
  network_ops :: pyfloat
  providers :: "(string \<times> pyfloat) list"
  provider_count :: nat

text \<open>\<^verbatim>\<open>_compute_settlements\<close>\<close>

definition compute_settlements ::
  "float_ops \<Rightarrow> merlin_config \<Rightarrow> item list \<Rightarrow> failure + settlements" where
  "compute_settlements ops cfg proofs =
     (case settle ops cfg proofs (Fin 0, []) of
        Inl f \<Rightarrow> Inl f
      | Inr (volume, earnings) \<Rightarrow>
          Inr \<lparr>total_volume = volume,
               provider_pool = fmul ops volume (provider_share cfg),
               network_ops = fmul ops volume (network_ops_share cfg),
               providers = earnings,
               provider_count = length earnings\<rparr>)"

text \<open>The dict \<^verbatim>\<open>_compute_settlements\<close> returns, as a JSON value.\<close>

definition settlements_doc :: "settlements \<Rightarrow> pydict" where
  "settlements_doc s =
     [(''total_volume'', JFloat (total_volume s)),
      (''provider_pool'', JFloat (provider_pool s)),
      (''network_ops'', JFloat (network_ops s)),
      (''providers'', JObj (map (\<lambda>kv. (fst kv, JFloat (snd kv))) (providers s))),
      (''provider_count'', JInt (int (provider_count s)))]"

section \<open>Sealing (\<^verbatim>\<open>epoch.py\<close>)\<close>

text \<open>
  \<^verbatim>\<open>proof_cids\<close>: \<^verbatim>\<open>proof.get("proof_id", "")\<close> of every accumulated proof, in order.
  \<^verbatim>\<open>compute_merkle_root\<close> takes a \<^verbatim>\<open>list[str]\<close>: an id that is not a string is
  outside this model (Python raises there: \<^verbatim>\<open>sorted\<close> cannot compare it with a
  string, and it has no \<^verbatim>\<open>startswith\<close>).
\<close>

definition proof_cid :: "item \<Rightarrow> string option" where
  "proof_cid it =
     (case dict_get (item_proof it) ''proof_id'' of
        None \<Rightarrow> Some []
      | Some (JStr s) \<Rightarrow> Some s
      | Some v \<Rightarrow> None)"

fun proof_cids :: "item list \<Rightarrow> string list option" where
  "proof_cids [] = Some []"
| "proof_cids (it # items) =
     (case proof_cid it of
        None \<Rightarrow> None
      | Some c \<Rightarrow> map_option ((#) c) (proof_cids items))"

text \<open>
  The fields \<^verbatim>\<open>seal_current_epoch\<close> lays over the current epoch document:
  \<^verbatim>\<open>
  sealed_epoch = {**self.current_epoch, "status": "sealed", "ended_at": timestamp,
      "jobs_count": len(self.current_proofs), "proofs_count": len(self.current_proofs),
      "total_volume_usdc": f"{settlements['total_volume']:.2f}",
      "merkle_root": merkle_root, "settlements": settlements,
      "proofs": proof_cids, "timestamp": timestamp}
  \<close>
\<close>

definition sealed_fields :: "int \<Rightarrow> nat \<Rightarrow> settlements \<Rightarrow> string \<Rightarrow> string list \<Rightarrow> pydict" where
  "sealed_fields timestamp n st merkle_root cids =
     [(''status'', JStr ''sealed''),
      (''ended_at'', JInt timestamp),
      (''jobs_count'', JInt (int n)),
      (''proofs_count'', JInt (int n)),
      (''total_volume_usdc'', JStr (format_2f (total_volume st))),
      (''merkle_root'', JStr merkle_root),
      (''settlements'', JObj (settlements_doc st)),
      (''proofs'', JList (map JStr cids)),
      (''timestamp'', JInt timestamp)]"

text \<open>
  The overlay, then
  \<^verbatim>\<open>
  if "sig" in sealed_epoch:
      del sealed_epoch["sig"]
  sealed_epoch = self.signer.sign_and_add(sealed_epoch)
  \<close>
\<close>

definition seal_document :: "world \<Rightarrow> pydict \<Rightarrow> pydict \<Rightarrow> pydict" where
  "seal_document w epoch overlay =
     (let sealed = dict_overlay epoch overlay;
          unsigned = (if dict_has sealed ''sig'' then dict_without ''sig'' sealed else sealed)
      in sign_and_add (lib_ops w) (lib_keccak w) (lib_account w) unsigned)"

text \<open>
  The document \<^verbatim>\<open>seal_current_epoch\<close> signs and hands to \<^verbatim>\<open>publish_epoch\<close>; \<open>None\<close>
  when there is no current epoch (\<^verbatim>\<open>if not self.current_epoch: return None\<close>).
\<close>

definition sealed_epoch ::
  "world \<Rightarrow> merlin_config \<Rightarrow> int \<Rightarrow> epoch_manager \<Rightarrow> failure + pydict option" where
  "sealed_epoch w cfg now m =
     (case current_epoch m of
        None \<Rightarrow> Inr None
      | Some epoch \<Rightarrow>
          if epoch = [] then Inr None
          else case compute_settlements (lib_ops w) cfg (current_proofs m) of
                 Inl f \<Rightarrow> Inl f
               | Inr st \<Rightarrow>
                   (case proof_cids (current_proofs m) of
                      None \<Rightarrow> Inl OutOfModel
                    | Some cids \<Rightarrow>
                        (case (if cids \<noteq> [] then compute_merkle_root (lib_keccak w) cids
                               else Inr zero_root) of
                           Inl e \<Rightarrow> Inl (Raised e)
                         | Inr merkle_root \<Rightarrow>
                             Inr (Some (seal_document w epoch
                                          (sealed_fields (unix_seconds now)
                                             (length (current_proofs m)) st merkle_root cids))))))"

text \<open>
  \<^verbatim>\<open>seal_current_epoch\<close>: the CID returned, \<open>None\<close> without a current epoch, or the
  exception. The call assigns to no field of the manager.
\<close>

definition seal_current_epoch ::
  "world \<Rightarrow> merlin_config \<Rightarrow> int \<Rightarrow> epoch_manager \<Rightarrow> failure + string option" where
  "seal_current_epoch w cfg now m =
     (case sealed_epoch w cfg now m of
        Inl f \<Rightarrow> Inl f
      | Inr None \<Rightarrow> Inr None
      | Inr (Some doc) \<Rightarrow>
          (case publish_epoch (lib_ops w) (lib_str w) (lib_store w) doc of
             Inl e \<Rightarrow> Inl (Raised e)
           | Inr cid \<Rightarrow> Inr (Some cid)))"

section \<open>Runs, hexadecimal text, and values for the examples\<close>

text \<open>Calls of \<^verbatim>\<open>open_new_epoch\<close> one after the other, at the given times.\<close>

fun open_calls :: "world \<Rightarrow> merlin_config \<Rightarrow> int list \<Rightarrow> epoch_manager \<Rightarrow> epoch_manager" where
  "open_calls w cfg [] m = m"
| "open_calls w cfg (now # nows) m = open_calls w cfg nows (fst (open_new_epoch w cfg now m))"

text \<open>The ids of a listing whose fetch succeeds (\<^verbatim>\<open>if proof:\<close> holds).\<close>

definition fetched_ok_ids :: "(string \<times> pydict option) list \<Rightarrow> string set" where
  "fetched_ok_ids listing = {proof_id. \<exists>fetched. (proof_id, fetched) \<in> set listing \<and> fetch_ok fetched}"

text \<open>Hexadecimal text of even length: digits only, two for each byte.\<close>

definition is_hex_digit :: "char \<Rightarrow> bool" where
  "is_hex_digit c = (hex_val c \<noteq> None)"

definition valid_hex :: "string \<Rightarrow> bool" where
  "valid_hex s = (even (length s) \<and> list_all is_hex_digit s)"

text \<open>
  An instance of the float operations for the examples: exact on rationals. It agrees
  with binary64 wherever the exact result is a binary64 number, as it is in every
  example below (halves and quarters).
\<close>

definition exact_ops :: float_ops where
  "exact_ops =
     \<lparr>fadd = (\<lambda>a b. case (a, b) of (Fin x, Fin y) \<Rightarrow> Fin (x + y) | _ \<Rightarrow> NaN),
      fmul = (\<lambda>a b. case (a, b) of (Fin x, Fin y) \<Rightarrow> Fin (x * y) | _ \<Rightarrow> NaN),
      float_of_str = (\<lambda>s. None),
      float_of_int = (\<lambda>i. Some (Fin (of_int i))),
      float_repr = (\<lambda>f. [])\<rparr>"

text \<open>
  A stand-in for the account and for signature recovery in the examples: the signature
  of a hash is the hash, and recovery accepts exactly that.
\<close>

definition example_account :: signer where
  "example_account = \<lparr>sign_message = (\<lambda>h. h), hex_prefixed = False, address = ''0xA''\<rparr>"

definition example_verifier :: verifier where
  "example_verifier =
     \<lparr>recover_message = (\<lambda>h s. if s = h then Some ''0xA'' else None),
      to_checksum_address = (\<lambda>a. Some a)\<rparr>"

definition example_world :: world where
  "example_world =
     \<lparr>lib_ops = exact_ops,
      lib_keccak = (\<lambda>bs. 0),
      lib_account = example_account,
      lib_store = \<lparr>ipfs_add = (\<lambda>text. Some ''bafyexample'')\<rparr>,
      lib_str = (\<lambda>v. [])\<rparr>"

definition example_config :: merlin_config where
  "example_config =
     \<lparr>identity = ''merlin.swarmos.eth'', pool = ''swarmpool.eth'',
      epoch_duration_seconds = 3600,
      provider_share = Fin (3 / 4), network_ops_share = Fin (1 / 4)\<rparr>"

text \<open>A proof document that passes \<^verbatim>\<open>validate_proof\<close>, with the given \<^verbatim>\<open>proof_id\<close>.\<close>

definition example_proof :: "string \<Rightarrow> pydict" where
  "example_proof proof_id =
     [(''type'', JStr ''proof''),
      (''version'', JStr ''1.0.0''),
      (''proof_id'', JStr proof_id),
      (''job_cid'', JStr ''bafyjob1''),
      (''output_cid'', JStr ''bafyout1''),
      (''metrics'', JObj [(''inference_seconds'', JFloat (Fin (3 / 2))),
                          (''confidence'', JFloat (Fin (1 / 2)))]),
      (''provider'', JStr ''alice.eth''),
      (''timestamp'', JInt 1700000000),
      (''proof_hash'', JStr ''0xab''),
      (''sig'', JStr ''0xcd'')]"

text \<open>A manager with an open epoch and an empty accumulator.\<close>

definition example_manager :: epoch_manager where
  "example_manager = fst (open_new_epoch example_world example_config 0 init_manager)"

(*DEFS-END*)

chapter \<open>Properties\<close>

section \<open>The Merkle root\<close>

lemma build_tree_single: "build_tree keccak [h] = Inr [h]"
  by (simp add: build_tree.simps)

lemma merkle_root_single:
  "compute_merkle_root keccak [x] =
     (case leaf keccak x of Inl e \<Rightarrow> Inl e | Inr h \<Rightarrow> Inr (''0x'' @ hex_of_bytes h))"
  by (simp add: compute_merkle_root_def build_tree_single split: sum.splits)

lemma length_digest_bytes: "length (digest_bytes w) = 32"
  by (simp add: digest_bytes_def)

lemma length_hex_of_bytes: "length (hex_of_bytes bs) = 2 * length bs"
  by (induction bs) (simp_all add: hex_of_bytes_def hex_of_byte_def)

lemma merkle_root_0x: "compute_merkle_root keccak [''0x''] = Inr ''0x''"
  by (simp add: merkle_root_single leaf_def startswith_def hex_of_bytes_def)

text \<open>
  Claim C1, as stated: the root of a one-element list \<open>[x]\<close> is
  \<open>keccak (leaf x || leaf x)\<close>. The code does not do that: the loop
  \<^verbatim>\<open>while len(hashes) > 1\<close> is not entered for one leaf, so the root is the leaf
  itself. For the item \<^verbatim>\<open>"0x"\<close> the leaf is the empty byte string and the root is the
  text \<^verbatim>\<open>"0x"\<close>, which is not the 66 characters of any digest, whatever the hash is.
\<close>

theorem C1_single_leaf_duplication_counterexample:
  "\<forall>keccak.
     compute_merkle_root keccak [''0x''] = Inr ''0x'' \<and>
     leaf keccak ''0x'' = Inr [] \<and>
     compute_merkle_root keccak [''0x'']
       \<noteq> Inr (''0x'' @ hex_of_bytes (digest_bytes (keccak ([] @ []))))"
proof
  fix keccak :: "byte list \<Rightarrow> digest"
  have "length (''0x'' @ hex_of_bytes (digest_bytes (keccak ([] @ [])))) = 66"
    by (simp add: length_hex_of_bytes length_digest_bytes)
  then have "''0x'' @ hex_of_bytes (digest_bytes (keccak ([] @ []))) \<noteq> ''0x''"
    by auto
  then show "compute_merkle_root keccak [''0x''] = Inr ''0x'' \<and>
     leaf keccak ''0x'' = Inr [] \<and>
     compute_merkle_root keccak [''0x'']
       \<noteq> Inr (''0x'' @ hex_of_bytes (digest_bytes (keccak ([] @ []))))"
    by (simp add: merkle_root_0x leaf_def startswith_def)
qed

text \<open>
  Claim C1, amended: for every one-element list \<open>[x]\<close>, \<open>compute_merkle_root [x]\<close> is
  \<^verbatim>\<open>"0x"\<close> followed by the hexadecimal text of the leaf of \<open>x\<close> itself (the decoded
  bytes when \<open>x\<close> begins with \<^verbatim>\<open>0x\<close>, the keccak digest of its UTF-8 bytes otherwise);
  no duplication and no further hash is applied to a single leaf. Where decoding the
  leaf raises, the call raises.
\<close>

theorem C1_single_leaf_is_root:
  "compute_merkle_root keccak [x] =
     (if startswith x ''0x''
      then (case fromhex (drop 2 x) of
              None \<Rightarrow> Inl ValueError
            | Some bs \<Rightarrow> Inr (''0x'' @ hex_of_bytes bs))
      else Inr (''0x'' @ hex_of_bytes (digest_bytes (keccak (utf8_encode x)))))"
  by (simp add: merkle_root_single leaf_def split: option.splits)

text \<open>
  Claim C4: for every list \<open>L\<close> and every permutation \<open>P\<close> of it (the same items with
  the same multiplicities), \<open>compute_merkle_root L = compute_merkle_root P\<close>, also
  where the call raises.
\<close>

theorem C4_merkle_root_permutation_invariant:
  assumes "mset items = mset items'"
  shows "compute_merkle_root keccak items = compute_merkle_root keccak items'"
proof -
  from assms have "sort items = sort items'"
    by (metis properties_for_sort mset_sort sorted_sort)
  moreover from assms have "items = [] \<longleftrightarrow> items' = []"
    by (metis mset_zero_iff)
  ultimately show ?thesis
    by (simp add: compute_merkle_root_def)
qed

theorem C4_merkle_root_permutation_invariant_witness:
  "\<forall>keccak.
     mset [''proof-b'', ''0xab'', ''proof-a''] = mset [''proof-a'', ''proof-b'', ''0xab''] \<and>
     compute_merkle_root keccak [''proof-b'', ''0xab'', ''proof-a'']
       = compute_merkle_root keccak [''proof-a'', ''proof-b'', ''0xab'']"
proof
  fix keccak :: "byte list \<Rightarrow> digest"
  have h: "mset [''proof-b'', ''0xab'', ''proof-a''] = mset [''proof-a'', ''proof-b'', ''0xab'']"
    by simp
  show "mset [''proof-b'', ''0xab'', ''proof-a''] = mset [''proof-a'', ''proof-b'', ''0xab''] \<and>
     compute_merkle_root keccak [''proof-b'', ''0xab'', ''proof-a'']
       = compute_merkle_root keccak [''proof-a'', ''proof-b'', ''0xab'']"
    using h C4_merkle_root_permutation_invariant [OF h, of keccak] by simp
qed

section \<open>Dictionaries, hexadecimal text and signatures\<close>

lemma hex_digit_props:
  assumes "n < 16"
  shows "hex_val (hex_digit n) = Some n" and "\<not> is_space (hex_digit n)"
proof -
  have "(of_char (hex_digit n) :: nat) = (if n < 10 then 48 + n else 87 + n)"
    using assms by (simp add: hex_digit_def)
  then show "hex_val (hex_digit n) = Some n" and "\<not> is_space (hex_digit n)"
    using assms by (auto simp: hex_val_def is_space_def Let_def)
qed

lemma byte_of_nibbles: "(of_nat (16 * (unat b div 16) + unat b mod 16) :: byte) = b"
  by (simp add: mult_div_mod_eq)

lemma fromhex_hex_of_bytes: "fromhex (hex_of_bytes bs) = Some bs"
proof (induction bs)
  case Nil
  show ?case by (simp add: hex_of_bytes_def)
next
  case (Cons b bs)
  have hi: "unat b div 16 < 16"
    using unsigned_less [of b, where ?'a = nat] by (simp add: less_mult_imp_div_less)
  have lo: "unat b mod 16 < 16" by simp
  have "hex_of_bytes (b # bs) =
          hex_digit (unat b div 16) # hex_digit (unat b mod 16) # hex_of_bytes bs"
    by (simp add: hex_of_bytes_def hex_of_byte_def)
  then show ?case
    using Cons.IH hex_digit_props [OF hi] hex_digit_props [OF lo]
    by (simp add: byte_of_nibbles)
qed

lemma hex_of_bytes_no_0x: "\<not> startswith (hex_of_bytes bs) ''0x''"
proof (cases bs)
  case Nil
  then show ?thesis by (simp add: startswith_def hex_of_bytes_def)
next
  case (Cons b bs')
  have lo: "unat b mod 16 < 16" by simp
  have "hex_val (CHR ''x'') = None" by (simp add: hex_val_def)
  with hex_digit_props(1) [OF lo] have "hex_digit (unat b mod 16) \<noteq> CHR ''x''" by auto
  then show ?thesis
    unfolding Cons by (simp add: startswith_def hex_of_bytes_def hex_of_byte_def)
qed

lemma dict_get_dict_set:
  "dict_get (dict_set k v d) k' = (if k' = k then Some v else dict_get d k')"
  by (induction d) (auto simp: dict_get_def)

lemma dict_without_dict_set: "dict_without k (dict_set k v d) = dict_without k d"
  by (induction d) (auto simp: dict_without_def)

lemma dict_get_dict_without:
  "dict_get (dict_without k d) k' = (if k' = k then None else dict_get d k')"
  by (induction d) (auto simp: dict_without_def dict_get_def)

lemma dict_overlay_Cons: "dict_overlay d (kv # kvs) = dict_overlay (dict_set (fst kv) (snd kv) d) kvs"
  by (simp add: dict_overlay_def)

lemma dict_get_dict_overlay:
  "dict_get (dict_overlay d kvs) k =
     (case map_of (rev kvs) k of None \<Rightarrow> dict_get d k | Some v \<Rightarrow> Some v)"
proof (induction kvs arbitrary: d)
  case Nil
  show ?case by (simp add: dict_overlay_def)
next
  case (Cons kv kvs)
  obtain k' v' where kv: "kv = (k', v')" by (cases kv)
  show ?case
    unfolding dict_overlay_Cons Cons.IH kv
    by (simp add: dict_get_dict_set map_add_def split: option.splits)
qed

lemma signed_text_sign_and_add:
  "signed_text ops (sign_and_add ops keccak sg d) = signed_text ops d"
  by (simp add: signed_text_def sign_and_add_def Let_def dict_without_dict_set)

lemma message_hash_sign_and_add:
  "message_hash ops keccak (sign_and_add ops keccak sg d) = message_hash ops keccak d"
  by (simp add: message_hash_def signed_text_sign_and_add)

lemma sig_of_sign_and_add:
  "dict_get (sign_and_add ops keccak sg d) ''sig'' =
     Some (JStr (''0x'' @ hex_of_bytes (sign_message sg (message_hash ops keccak d))))"
proof (cases "hex_prefixed sg")
  case True
  then show ?thesis
    by (simp add: sign_and_add_def sign_snapshot_def Let_def dict_get_dict_set startswith_def)
next
  case False
  then show ?thesis
    using hex_of_bytes_no_0x [of "sign_message sg (message_hash ops keccak d)"]
    by (simp add: sign_and_add_def sign_snapshot_def Let_def dict_get_dict_set)
qed

lemma sign_and_add_keeps:
  "k \<noteq> ''sig'' \<Longrightarrow> dict_get (sign_and_add ops keccak sg d) k = dict_get d k"
  by (simp add: sign_and_add_def Let_def dict_get_dict_set)

lemma verify_signature_signed:
  "verify_signature ops keccak vf (sign_and_add ops keccak sg d)
     (''0x'' @ hex_of_bytes (sign_message sg (message_hash ops keccak d))) expected =
   (case recover_message vf (message_hash ops keccak d)
           (sign_message sg (message_hash ops keccak d)) of
      None \<Rightarrow> False
    | Some recovered \<Rightarrow>
        (case (to_checksum_address vf recovered, to_checksum_address vf expected) of
           (Some a, Some b) \<Rightarrow> a = b
         | _ \<Rightarrow> False))"
  by (simp add: verify_signature_def Let_def message_hash_sign_and_add startswith_def
      fromhex_hex_of_bytes)

section \<open>Canonical JSON\<close>

lemma insort_key_map_snd:
  "insort_key fst (k, g v) (map (\<lambda>kv. (fst kv, g (snd kv))) ys) =
     map (\<lambda>kv. (fst kv, g (snd kv))) (insort_key fst (k, v) ys)"
  by (induction ys) auto

lemma sort_key_map_snd:
  "sort_key fst (map (\<lambda>kv. (fst kv, g (snd kv))) xs) =
     map (\<lambda>kv. (fst kv, g (snd kv))) (sort_key fst xs)"
proof (induction xs)
  case Nil
  show ?case by simp
next
  case (Cons x xs)
  obtain k v where x: "x = (k, v)" by (cases x)
  show ?case unfolding x using Cons.IH by (simp add: insort_key_map_snd)
qed

lemma sort_key_idem: "sort_key f (sort_key f xs) = sort_key f xs"
  by (simp add: sort_key_id_if_sorted)

lemma json_dumps_sort_keys_recursive:
  "json_dumps ops (sort_keys_recursive v) = json_dumps ops v"
proof (induction v)
  case (JList xs)
  then have "map (\<lambda>x. json_dumps ops (sort_keys_recursive x)) xs = map (json_dumps ops) xs"
    by (intro map_cong) simp_all
  then have "map (json_dumps ops) (map sort_keys_recursive xs) = map (json_dumps ops) xs"
    by (simp only: map_map comp_def)
  then show ?case
    by (simp only: sort_keys_recursive.simps json_dumps.simps)
next
  case (JObj d)
  define e where "e = (\<lambda>kv. json_string (fst kv) @ '':'' @ json_dumps ops (snd kv))"
  define r where "r = (\<lambda>kv :: string \<times> json. (fst kv, sort_keys_recursive (snd kv)))"
  have ih: "json_dumps ops (sort_keys_recursive (snd kv)) = json_dumps ops (snd kv)"
    if "kv \<in> set d" for kv
    using JObj [of kv "snd kv"] that by (cases kv) simp
  have a: "sort_key fst (map r (sort_key fst d)) = map r (sort_key fst d)"
    unfolding r_def by (simp only: sort_key_map_snd sort_key_idem)
  have "e (r kv) = e kv" if "kv \<in> set (sort_key fst d)" for kv
    using ih [of kv] that by (simp add: e_def r_def)
  then have b: "map e (map r (sort_key fst d)) = map e (sort_key fst d)"
    unfolding map_map by (intro map_cong) simp_all
  have "json_dumps ops (sort_keys_recursive (JObj d)) =
          ''{'' @ join_comma (map e (sort_key fst (map r (sort_key fst d)))) @ ''}''"
    by (simp only: sort_keys_recursive.simps json_dumps.simps e_def r_def)
  also have "\<dots> = ''{'' @ join_comma (map e (sort_key fst d)) @ ''}''"
    by (simp only: a b)
  also have "\<dots> = json_dumps ops (JObj d)"
    by (simp only: json_dumps.simps e_def)
  finally show ?case .
qed simp_all

lemma published_is_canonical: "published_text ops d = canonical_json ops (JObj d)"
  by (simp only: published_text_def canonical_json_def json_dumps_sort_keys_recursive)

section \<open>Opening epochs\<close>

lemma nat_digits_1: "nat_digits 1 = ''1''"
  by code_simp

lemma format_04d_1: "format_04d 1 = ''0001''"
  by code_simp

lemma get_epoch_name_1: "get_epoch_name 1 = ''Bravo''"
  by (simp add: get_epoch_name_def NATO_ALPHABET_def)

lemma length_NATO: "length NATO_ALPHABET = 26"
  by (simp add: NATO_ALPHABET_def)

lemma open_number: "epoch_number (fst (open_new_epoch w cfg now m)) = epoch_number m + 1"
  by (simp add: open_new_epoch_def Let_def split: sum.splits)

lemma open_success:
  assumes "snd (open_new_epoch w cfg now m) = Inr eid"
  shows "eid = ''epoch-'' @ format_04d (epoch_number m + 1)"
    and "current_epoch_id (fst (open_new_epoch w cfg now m)) = Some eid"
    and "\<exists>doc. current_epoch (fst (open_new_epoch w cfg now m)) = Some doc \<and>
           dict_get doc ''epoch_id'' = Some (JStr eid) \<and>
           dict_get doc ''epoch_number'' = Some (JInt (int (epoch_number m + 1))) \<and>
           dict_get doc ''name'' = Some (JStr (NATO_ALPHABET ! ((epoch_number m + 1) mod 26))) \<and>
           dict_get doc ''status'' = Some (JStr ''active'')"
  using assms
  by (auto simp: open_new_epoch_def Let_def sign_and_add_def dict_get_dict_set
      new_epoch_document_def dict_get_def get_epoch_name_def length_NATO split: sum.splits)

lemma open_calls_number: "epoch_number (open_calls w cfg nows m) = epoch_number m + length nows"
  by (induction nows arbitrary: m) (simp_all add: open_number)

section \<open>The proof watcher\<close>

lemma poll_found_skip:
  "proof_id \<in> seen_proofs w \<or> \<not> fetch_ok fetched \<Longrightarrow>
     poll_found w ((proof_id, fetched) # rest) = poll_found w rest"
  by (auto simp: fetch_ok_def split: option.splits)

lemma poll_found_take:
  "proof_id \<notin> seen_proofs w \<Longrightarrow> fetched = Some p \<Longrightarrow> p \<noteq> [] \<Longrightarrow>
     poll_found w ((proof_id, fetched) # rest) =
       ((proof_id, p) # fst (poll_found (mark_seen proof_id w) rest),
        snd (poll_found (mark_seen proof_id w) rest))"
  by (simp split: prod.splits)

declare poll_found.simps(2) [simp del]

lemma poll_found_cases:
  obtains (skip) "proof_id \<in> seen_proofs w \<or> \<not> fetch_ok fetched"
  | (take) p where "proof_id \<notin> seen_proofs w" "fetched = Some p" "p \<noteq> []"
  by (cases fetched) (auto simp: fetch_ok_def)

lemma poll_found_seen:
  "seen_proofs (snd (poll_found w l)) = seen_proofs w \<union> fst ` set (fst (poll_found w l))"
proof (induction l arbitrary: w)
  case Nil
  show ?case by simp
next
  case (Cons e l)
  obtain proof_id fetched where e: "e = (proof_id, fetched)" by (cases e)
  show ?case
  proof (cases rule: poll_found_cases [of proof_id w fetched])
    case skip
    then show ?thesis unfolding e using Cons.IH [of w] by (simp only: poll_found_skip)
  next
    case (take p)
    have "seen_proofs (mark_seen proof_id w) = insert proof_id (seen_proofs w)"
      by (simp add: mark_seen_def)
    with Cons.IH [of "mark_seen proof_id w"] show ?thesis
      unfolding e by (simp add: poll_found_take [OF take])
  qed
qed

lemma poll_found_fresh:
  "fst ` set (fst (poll_found w l)) \<inter> seen_proofs w = {}"
proof (induction l arbitrary: w)
  case Nil
  show ?case by simp
next
  case (Cons e l)
  obtain proof_id fetched where e: "e = (proof_id, fetched)" by (cases e)
  show ?case
  proof (cases rule: poll_found_cases [of proof_id w fetched])
    case skip
    then show ?thesis unfolding e using Cons.IH [of w] by (simp only: poll_found_skip)
  next
    case (take p)
    have "seen_proofs (mark_seen proof_id w) = insert proof_id (seen_proofs w)"
      by (simp add: mark_seen_def)
    with Cons.IH [of "mark_seen proof_id w"] take(1) show ?thesis
      unfolding e by (auto simp add: poll_found_take [OF take])
  qed
qed

lemma poll_found_distinct:
  "distinct (map fst (fst (poll_found w l)))"
proof (induction l arbitrary: w)
  case Nil
  show ?case by simp
next
  case (Cons e l)
  obtain proof_id fetched where e: "e = (proof_id, fetched)" by (cases e)
  show ?case
  proof (cases rule: poll_found_cases [of proof_id w fetched])
    case skip
    then show ?thesis unfolding e using Cons.IH [of w] by (simp only: poll_found_skip)
  next
    case (take p)
    have "seen_proofs (mark_seen proof_id w) = insert proof_id (seen_proofs w)"
      by (simp add: mark_seen_def)
    with poll_found_fresh [of "mark_seen proof_id w" l]
    have "proof_id \<notin> fst ` set (fst (poll_found (mark_seen proof_id w) l))" by auto
    with Cons.IH [of "mark_seen proof_id w"] show ?thesis
      unfolding e by (simp add: poll_found_take [OF take])
  qed
qed

lemma fetched_ok_ids_Cons:
  "fetched_ok_ids ((proof_id, fetched) # l) =
     (if fetch_ok fetched then insert proof_id (fetched_ok_ids l) else fetched_ok_ids l)"
  by (auto simp: fetched_ok_ids_def)

lemma poll_found_ids:
  "fst ` set (fst (poll_found w l)) = fetched_ok_ids l - seen_proofs w"
proof (induction l arbitrary: w)
  case Nil
  show ?case by (simp add: fetched_ok_ids_def)
next
  case (Cons e l)
  obtain proof_id fetched where e: "e = (proof_id, fetched)" by (cases e)
  show ?case
  proof (cases rule: poll_found_cases [of proof_id w fetched])
    case skip
    then have "poll_found w (e # l) = poll_found w l"
      unfolding e by (simp only: poll_found_skip)
    moreover from skip have "fetched_ok_ids (e # l) - seen_proofs w = fetched_ok_ids l - seen_proofs w"
      unfolding e by (auto simp: fetched_ok_ids_Cons)
    ultimately show ?thesis using Cons.IH [of w] by simp
  next
    case (take p)
    have s: "seen_proofs (mark_seen proof_id w) = insert proof_id (seen_proofs w)"
      by (simp add: mark_seen_def)
    from take have ok: "fetch_ok fetched" by (simp add: fetch_ok_def)
    have "fst ` set (fst (poll_found w (e # l))) =
            insert proof_id (fetched_ok_ids l - insert proof_id (seen_proofs w))"
      unfolding e using Cons.IH [of "mark_seen proof_id w"] s
      by (simp add: poll_found_take [OF take])
    also have "\<dots> = fetched_ok_ids (e # l) - seen_proofs w"
      unfolding e using take(1) ok by (auto simp: fetched_ok_ids_Cons)
    finally show ?thesis .
  qed
qed

lemma poll_found_proofs:
  "(proof_id, p) \<in> set (fst (poll_found w l)) \<Longrightarrow> (proof_id, Some p) \<in> set l \<and> p \<noteq> []"
proof (induction l arbitrary: w)
  case Nil
  then show ?case by simp
next
  case (Cons e l)
  obtain proof_id' fetched where e: "e = (proof_id', fetched)" by (cases e)
  show ?case
  proof (cases rule: poll_found_cases [of proof_id' w fetched])
    case skip
    then have "poll_found w (e # l) = poll_found w l"
      unfolding e by (simp only: poll_found_skip)
    with Cons show ?thesis by auto
  next
    case (take p')
    from Cons.prems have "(proof_id, p) = (proof_id', p') \<or>
        (proof_id, p) \<in> set (fst (poll_found (mark_seen proof_id' w) l))"
      unfolding e by (simp add: poll_found_take [OF take])
    then show ?thesis
      using Cons.IH [of "mark_seen proof_id' w"] take unfolding e by auto
  qed
qed

end
